theory Spec2Isabelle
  imports Main "HOL-Library.Word" "HOL-Library.Sublist"
begin

section \<open>Bytes, failures and the fmt verbs used by the plugin\<close>

type_synonym byte = "8 word"
type_synonym bytes = "byte list"

text \<open>
  A Go call of the plugin ends in one of four ways: it returns a value, it returns a
  non-nil \<open>error\<close> (created by \<open>fmt.Errorf\<close> or \<open>errors.New\<close>, carried here with its
  message), it calls \<open>panic\<close> with a message, or the runtime panics (an index or a slice
  bound out of range). A nil slice and an empty slice are both the empty list.
\<close>

datatype failure = Error string | Panic string | RuntimePanic

named_theorems go_consts

text \<open>The digit characters; below ten the hexadecimal digit is the decimal one.\<close>

definition hexdigit :: "nat \<Rightarrow> char" where
  "hexdigit d = ''0123456789abcdef'' ! d"

definition hexdigit_upper :: "nat \<Rightarrow> char" where
  "hexdigit_upper d = ''0123456789ABCDEF'' ! d"

text \<open>\<open>%x\<close> applied to a byte slice: two lower-case hexadecimal digits per byte.\<close>

definition fmt_x_byte :: "byte \<Rightarrow> string" where
  "fmt_x_byte b = [hexdigit (unat b div 16), hexdigit (unat b mod 16)]"

definition fmt_x :: "bytes \<Rightarrow> string" where
  "fmt_x bs = concat (map fmt_x_byte bs)"

text \<open>\<open>%v\<close> applied to a non-negative integer: its decimal digits.\<close>

function fmt_v :: "nat \<Rightarrow> string" where
  "fmt_v n = (if n < 10 then [hexdigit n] else fmt_v (n div 10) @ [hexdigit (n mod 10)])"
  by pat_completeness auto
termination
  by (relation "measure id") auto

declare fmt_v.simps [simp del]

text \<open>\<open>%X\<close> applied to an unsigned integer: upper-case hexadecimal, no padding.\<close>

function fmt_X :: "nat \<Rightarrow> string" where
  "fmt_X n = (if n < 16 then [hexdigit_upper n] else fmt_X (n div 16) @ [hexdigit_upper (n mod 16)])"
  by pat_completeness auto
termination
  by (relation "measure id") auto

declare fmt_X.simps [simp del]

text \<open>The builtins \<open>make([]byte, n)\<close> and \<open>copy(dst, src)\<close>; the latter returns the new
  contents of \<open>dst\<close> (the first \<open>min (len dst) (len src)\<close> elements are overwritten, and an
  overlap of the two slices is handled as if \<open>src\<close> had been read first).\<close>

definition make_bytes :: "nat \<Rightarrow> bytes" where
  "make_bytes n = replicate n 0"

definition go_copy :: "'a list \<Rightarrow> 'a list \<Rightarrow> 'a list" where
  "go_copy dst src =
     take (min (length dst) (length src)) src @ drop (min (length dst) (length src)) dst"

section \<open>Constants of the plugin\<close>

definition Nmt :: "64 word" where [go_consts]:
  "Nmt = 0x7700"

definition NmtCodecName :: string where [go_consts]:
  "NmtCodecName = ''nmt-node''"

definition Sha256Namespace8Flagged :: "64 word" where [go_consts]:
  "Sha256Namespace8Flagged = 0x7701"

definition namespaceSize :: nat where [go_consts]:
  "namespaceSize = 8"

definition shareSize :: nat where [go_consts]:
  "shareSize = 256"

definition sha256_Size :: nat where [go_consts]:
  "sha256_Size = 32"

definition nmtHashSize :: nat where [go_consts]:
  "nmtHashSize = 2 * namespaceSize + sha256_Size"

text \<open>
  Modelled from the spec: the domain-separation bytes \<open>nmt.LeafPrefix\<close> and
  \<open>nmt.NodePrefix\<close> are declared by the NMT library, which is not part of the sources;
  the spec fixes them as \<open>0x00\<close> for leaves and \<open>0x01\<close> for inner nodes.
\<close>

definition LeafPrefix :: byte where [go_consts]:
  "LeafPrefix = 0x00"

definition NodePrefix :: byte where [go_consts]:
  "NodePrefix = 0x01"

section \<open>The multihash registry and content identifiers\<close>

text \<open>
  Modelled from the spec: a multihash is the triple (algorithm tag, length, digest bytes)
  and a content identifier is a pair (codec, multihash); \<open>Undef\<close> is the zero value
  \<open>cid.Cid{}\<close>. The multihash and CID libraries are external to the sources.
\<close>

record Multihash =
  Code :: "64 word"
  Length :: nat
  Digest :: bytes

datatype Cid = Undef | NewCidV1 "64 word" Multihash

type_synonym HashFunc = "bytes \<Rightarrow> int \<Rightarrow> failure + bytes"

text \<open>
  Modelled from the spec: the process-wide multihash registry, external to the sources.
  It holds the maps the plugin writes (\<open>mh.Codes\<close>, \<open>mh.Names\<close>, \<open>mh.DefaultLengths\<close>) and
  the table of hash functions behind \<open>mh.RegisterHashFunc\<close>. As the comment in
  \<open>mustRegisterNamespacedCodec\<close> records, \<open>RegisterHashFunc\<close> fails for a code that is
  not in \<open>mh.Codes\<close>; it also refuses a second function for one code. \<open>mh.Encode\<close> wraps
  a digest under a code and fails for a code that is not in \<open>mh.Codes\<close>.
\<close>

record registry =
  Codes :: "64 word \<rightharpoonup> string"
  Names :: "string \<rightharpoonup> 64 word"
  DefaultLengths :: "64 word \<rightharpoonup> int"
  funcTable :: "64 word \<rightharpoonup> HashFunc"

definition ValidCode :: "registry \<Rightarrow> 64 word \<Rightarrow> bool" where
  "ValidCode reg code = (case Codes reg code of None \<Rightarrow> False | Some _ \<Rightarrow> True)"

text \<open>Reading a Go map at a missing key gives the zero value, here the empty string.\<close>

definition Codes_at :: "registry \<Rightarrow> 64 word \<Rightarrow> string" where
  "Codes_at reg code = (case Codes reg code of None \<Rightarrow> [] | Some v \<Rightarrow> v)"

definition Encode :: "registry \<Rightarrow> bytes \<Rightarrow> 64 word \<Rightarrow> failure + Multihash" where
  "Encode reg buf code =
     (if \<not> ValidCode reg code then Inl (Error ''unknown multihash code'')
      else Inr \<lparr>Code = code, Length = length buf, Digest = buf\<rparr>)"

definition RegisterHashFunc :: "registry \<Rightarrow> 64 word \<Rightarrow> HashFunc \<Rightarrow> failure + registry" where
  "RegisterHashFunc reg code hashFunc =
     (if \<not> ValidCode reg code
      then Inl (Error (''code '' @ fmt_v (unat code) @ '' not valid''))
      else case funcTable reg code of
             Some _ \<Rightarrow>
               Inl (Error (''hash func for code '' @ fmt_v (unat code) @ '' already registered''))
           | None \<Rightarrow> Inr (reg\<lparr>funcTable := (funcTable reg)(code \<mapsto> hashFunc)\<rparr>))"

section \<open>Registration of the namespaced codec\<close>

text \<open>
  \<open>mustRegisterNamespacedCodec\<close>, with the registry passed in and returned. The inner
  lookup repeats the outer one, as in the source.
\<close>

definition mustRegisterNamespacedCodec ::
  "registry \<Rightarrow> 64 word \<Rightarrow> string \<Rightarrow> int \<Rightarrow> HashFunc \<Rightarrow> failure + registry" where
  "mustRegisterNamespacedCodec reg codec name defaultLength hashFunc =
     (case Codes reg codec of
        Some _ \<Rightarrow> Inr reg
      | None \<Rightarrow>
          (case Codes reg codec of
             Some _ \<Rightarrow>
               Inl (Panic (''Codec 0x'' @ fmt_X (unat codec) @ '' is already present: ''
                             @ Codes_at reg codec))
           | None \<Rightarrow>
               (let reg1 = reg\<lparr>Codes := (Codes reg)(codec \<mapsto> name)\<rparr>;
                    reg2 = reg1\<lparr>Names := (Names reg1)(name \<mapsto> codec)\<rparr>;
                    reg3 = reg2\<lparr>DefaultLengths := (DefaultLengths reg2)(codec \<mapsto> defaultLength)\<rparr>
                in case RegisterHashFunc reg3 codec hashFunc of
                     Inl _ \<Rightarrow>
                       Inl (Panic (''could not register hash function: '' @ Codes_at reg3 codec))
                   | Inr reg4 \<Rightarrow> Inr reg4)))"

text \<open>
  Modelled from the spec: the two hash routines of the NMT library,
  \<open>nmt.Sha256Namespace8FlaggedLeaf\<close> and \<open>nmt.Sha256Namespace8FlaggedInner\<close>, are external
  to the sources. Their result type is \<open>[]byte\<close>, so a call returns a hash or panics;
  \<open>None\<close> is the panic. The underlying digest \<open>H\<close> (SHA-256, 32 bytes) is the parameter
  \<open>baseHash\<close>. A namespaced hash is \<open>minNamespace || maxNamespace || digest\<close>.
  \<^item> Leaf routine, on \<open>namespaceID || shareData\<close>: both namespaces are the leaf's
    namespace, the first \<open>NS\<close> bytes, and the digest is
    \<open>H(leafPrefix || namespaceID || shareData)\<close>. A payload shorter than \<open>NS\<close> bytes holds
    no namespace: the slice is out of range.
  \<^item> Inner routine, on \<open>leftNamespacedHash || rightNamespacedHash\<close>: the left hash is the
    first \<open>2*NS+H\<close> bytes, the right hash the rest; the namespace range is
    \<open>[min(leftMin, rightMin), max(leftMax, rightMax)]\<close> in lexicographic order and the
    digest is \<open>H(innerPrefix || left || right)\<close>. A payload without a complete left hash,
    or whose right part is shorter than the \<open>2*NS\<close> bytes of a namespace range, is sliced
    out of range.
  A byte string stands for a slice without spare capacity, so a bound beyond the length
  is out of range.
\<close>

fun bytes_less :: "bytes \<Rightarrow> bytes \<Rightarrow> bool" where
  "bytes_less [] [] = False"
| "bytes_less [] (y # ys) = True"
| "bytes_less (x # xs) [] = False"
| "bytes_less (x # xs) (y # ys) = (x < y \<or> (x = y \<and> bytes_less xs ys))"

definition min_ns :: "bytes \<Rightarrow> bytes \<Rightarrow> bytes" where
  "min_ns ns ns2 = (if bytes_less ns2 ns then ns2 else ns)"

definition max_ns :: "bytes \<Rightarrow> bytes \<Rightarrow> bytes" where
  "max_ns ns ns2 = (if bytes_less ns ns2 then ns2 else ns)"

definition Sha256Namespace8FlaggedLeaf :: "(bytes \<Rightarrow> bytes) \<Rightarrow> bytes \<Rightarrow> bytes option" where
  "Sha256Namespace8FlaggedLeaf baseHash namespacedData =
     (if length namespacedData < namespaceSize then None
      else let nID = take namespaceSize namespacedData
           in Some (nID @ nID @ baseHash (LeafPrefix # namespacedData)))"

definition Sha256Namespace8FlaggedInner :: "(bytes \<Rightarrow> bytes) \<Rightarrow> bytes \<Rightarrow> bytes option" where
  "Sha256Namespace8FlaggedInner baseHash leftRight =
     (if length leftRight < nmtHashSize then None
      else let left = take nmtHashSize leftRight;
               right = drop nmtHashSize leftRight
           in if length right < 2 * namespaceSize then None
              else let leftMinNs = take namespaceSize left;
                       leftMaxNs = take namespaceSize (drop namespaceSize left);
                       rightMinNs = take namespaceSize right;
                       rightMaxNs = take namespaceSize (drop namespaceSize right);
                       minNs = min_ns leftMinNs rightMinNs;
                       maxNs = max_ns leftMaxNs rightMaxNs
                   in Some (minNs @ maxNs @ baseHash (NodePrefix # left @ right)))"

text \<open>
  \<open>sumSha256Namespace8Flagged\<close>. The two hash routines it calls are the parameters
  \<open>leafHash\<close> and \<open>innerHash\<close>; a panic inside the routine called ends the call, so no
  value and no error is returned.
\<close>

definition sumSha256Namespace8Flagged ::
  "(bytes \<Rightarrow> bytes option) \<Rightarrow> (bytes \<Rightarrow> bytes option) \<Rightarrow> bytes \<Rightarrow> int \<Rightarrow> failure + bytes" where
  "sumSha256Namespace8Flagged leafHash innerHash data length_ignored =
     (if length data = 0 then Inl RuntimePanic
      else let isLeafData = (data ! 0 = LeafPrefix)
           in if isLeafData
              then (case leafHash (drop 1 data) of
                      None \<Rightarrow> Inl RuntimePanic
                    | Some h \<Rightarrow> Inr h)
              else (case innerHash (drop 1 data) of
                      None \<Rightarrow> Inl RuntimePanic
                    | Some h \<Rightarrow> Inr h))"

text \<open>The part of \<open>init\<close> that acts on the multihash registry.\<close>

definition init ::
  "(bytes \<Rightarrow> bytes option) \<Rightarrow> (bytes \<Rightarrow> bytes option) \<Rightarrow> registry \<Rightarrow> failure + registry" where
  "init leafHash innerHash reg =
     mustRegisterNamespacedCodec reg Sha256Namespace8Flagged ''sha2-256-namespace8-flagged''
       (int nmtHashSize) (sumSha256Namespace8Flagged leafHash innerHash)"

section \<open>Identifiers from namespaced hashes\<close>

definition CidFromNamespacedSha256 :: "registry \<Rightarrow> bytes \<Rightarrow> failure + Cid" where
  "CidFromNamespacedSha256 reg namespacedHash =
     (let got = length namespacedHash; want = nmtHashSize
      in if got \<noteq> want
         then Inl (Error (''invalid namespaced hash length, got: '' @ fmt_v got
                            @ '', want: '' @ fmt_v want))
         else case Encode reg namespacedHash Sha256Namespace8Flagged of
                Inl err \<Rightarrow> Inl err
              | Inr buf \<Rightarrow> Inr (NewCidV1 Nmt buf))"

definition mustCidFromNamespacedSha256 :: "registry \<Rightarrow> bytes \<Rightarrow> failure + Cid" where
  "mustCidFromNamespacedSha256 reg hash =
     (case CidFromNamespacedSha256 reg hash of
        Inl (Error err) \<Rightarrow>
          Inl (Panic (''malformed hash: '' @ err @ '', codec: ''
                        @ Codes_at reg Sha256Namespace8Flagged))
      | Inl other \<Rightarrow> Inl other
      | Inr c \<Rightarrow> Inr c)"

section \<open>Blocks and nodes\<close>

record Block =
  Block_Cid :: Cid
  Block_RawData :: bytes

record Link =
  Link_Name :: string
  Link_Size :: "64 word"
  Link_Cid :: Cid

record nmtNode =
  cid :: Cid
  l :: bytes
  r :: bytes

record nmtLeafNode =
  cid :: Cid
  Data :: bytes

text \<open>A value of the interface \<open>node.Node\<close>: nil, an inner node or a leaf node.\<close>

datatype Node = NilNode | InnerNode nmtNode | LeafNode nmtLeafNode

text \<open>
  \<open>NmtNodeParser\<close>. In the inner branch the struct literal evaluates
  \<open>data[prefixOffset : prefixOffset+nmtHashSize]\<close> and then \<open>data[prefixOffset+nmtHashSize:]\<close>.
  The first panics when the capacity of \<open>data\<close> is below the upper bound, the second when
  the length of \<open>data\<close> is below its lower bound; the capacity is at least the length, so
  one of the two panics exactly when the block is shorter than
  \<open>prefixOffset + nmtHashSize\<close> bytes, and bytes beyond the length never reach a node.
\<close>

definition NmtNodeParser :: "Block \<Rightarrow> failure + Node" where
  "NmtNodeParser block =
     (let prefixOffset = 1;
          leafPrefix = [LeafPrefix];
          innerPrefix = [NodePrefix];
          data = Block_RawData block
      in if length data = 0
         then Inr (LeafNode \<lparr>nmtLeafNode.cid = Undef, Data = []\<rparr>)
         else
           let domainSeparator = take prefixOffset data
           in if domainSeparator = leafPrefix
              then Inr (LeafNode \<lparr>nmtLeafNode.cid = Block_Cid block,
                                   Data = drop prefixOffset data\<rparr>)
              else if domainSeparator = innerPrefix
              then (if length data < prefixOffset + nmtHashSize then Inl RuntimePanic
                    else Inr (InnerNode
                           \<lparr>nmtNode.cid = Block_Cid block,
                            l = take nmtHashSize (drop prefixOffset data),
                            r = drop (prefixOffset + nmtHashSize) data\<rparr>))
              else Inl (Error
                     (''expected first byte of block to be either the leaf or inner node prefix: (''
                        @ fmt_x leafPrefix @ '', '' @ fmt_x innerPrefix @ ''), got: ''
                        @ fmt_x domainSeparator @ '')'')))"

subsection \<open>Methods of the inner node\<close>

definition nmtNode_RawData :: "nmtNode \<Rightarrow> bytes" where
  "nmtNode_RawData n = [NodePrefix] @ (l n @ r n)"

definition nmtNode_Cid :: "nmtNode \<Rightarrow> Cid" where
  "nmtNode_Cid n = nmtNode.cid n"

definition nmtNode_Resolve ::
  "registry \<Rightarrow> nmtNode \<Rightarrow> string list \<Rightarrow> failure + (Link \<times> string list)" where
  "nmtNode_Resolve reg n path =
     (if length path = 0 then Inl RuntimePanic
      else if path ! 0 = ''0''
      then (case CidFromNamespacedSha256 reg (l n) of
              Inl err \<Rightarrow> Inl err
            | Inr left \<Rightarrow>
                Inr (\<lparr>Link_Name = [], Link_Size = 0, Link_Cid = left\<rparr>, drop 1 path))
      else if path ! 0 = ''1''
      then (case CidFromNamespacedSha256 reg (r n) of
              Inl err \<Rightarrow> Inl err
            | Inr right \<Rightarrow>
                Inr (\<lparr>Link_Name = [], Link_Size = 0, Link_Cid = right\<rparr>, drop 1 path))
      else Inl (Error ''invalid path for inner node''))"

definition nmtNode_Copy :: "nmtNode \<Rightarrow> failure + Node" where
  "nmtNode_Copy n =
     (let l' = go_copy (make_bytes (length (l n))) (l n);
          r' = go_copy (make_bytes (length (r n))) (r n)
      in Inr (InnerNode \<lparr>nmtNode.cid = nmtNode.cid n, l = l', r = r'\<rparr>))"

definition nmtNode_Links :: "registry \<Rightarrow> nmtNode \<Rightarrow> failure + Link list" where
  "nmtNode_Links reg n =
     (case mustCidFromNamespacedSha256 reg (l n) of
        Inl p \<Rightarrow> Inl p
      | Inr leftCid \<Rightarrow>
          (case mustCidFromNamespacedSha256 reg (r n) of
             Inl p \<Rightarrow> Inl p
           | Inr rightCid \<Rightarrow>
               Inr [\<lparr>Link_Name = [], Link_Size = 0, Link_Cid = leftCid\<rparr>,
                    \<lparr>Link_Name = [], Link_Size = 0, Link_Cid = rightCid\<rparr>]))"

subsection \<open>Methods of the leaf node\<close>

definition nmtLeafNode_RawData :: "nmtLeafNode \<Rightarrow> bytes" where
  "nmtLeafNode_RawData lf = [LeafPrefix] @ Data lf"

definition nmtLeafNode_Cid :: "nmtLeafNode \<Rightarrow> Cid" where
  "nmtLeafNode_Cid lf = nmtLeafNode.cid lf"

definition nmtLeafNode_Resolve ::
  "nmtLeafNode \<Rightarrow> string list \<Rightarrow> failure + (Link \<times> string list)" where
  "nmtLeafNode_Resolve lf path = Inl (Error ''invalid path for leaf node'')"

definition nmtLeafNode_Copy :: "nmtLeafNode \<Rightarrow> failure + Node" where
  "nmtLeafNode_Copy lf = Inl (Panic ''implement me'')"

definition nmtLeafNode_Links :: "nmtLeafNode \<Rightarrow> Link list" where
  "nmtLeafNode_Links lf = [\<lparr>Link_Name = [], Link_Size = 0, Link_Cid = nmtLeafNode_Cid lf\<rparr>]"

subsection \<open>Calls through the interface\<close>

text \<open>A method call on the nil interface value is a runtime panic.\<close>

definition RawData :: "Node \<Rightarrow> failure + bytes" where
  "RawData nd = (case nd of NilNode \<Rightarrow> Inl RuntimePanic
                 | InnerNode n \<Rightarrow> Inr (nmtNode_RawData n)
                 | LeafNode lf \<Rightarrow> Inr (nmtLeafNode_RawData lf))"

definition Cid_of :: "Node \<Rightarrow> failure + Cid" where
  "Cid_of nd = (case nd of NilNode \<Rightarrow> Inl RuntimePanic
                | InnerNode n \<Rightarrow> Inr (nmtNode_Cid n)
                | LeafNode lf \<Rightarrow> Inr (nmtLeafNode_Cid lf))"

definition Resolve :: "registry \<Rightarrow> Node \<Rightarrow> string list \<Rightarrow> failure + (Link \<times> string list)" where
  "Resolve reg nd path = (case nd of NilNode \<Rightarrow> Inl RuntimePanic
                          | InnerNode n \<Rightarrow> nmtNode_Resolve reg n path
                          | LeafNode lf \<Rightarrow> nmtLeafNode_Resolve lf path)"

definition Copy :: "Node \<Rightarrow> failure + Node" where
  "Copy nd = (case nd of NilNode \<Rightarrow> Inl RuntimePanic
              | InnerNode n \<Rightarrow> nmtNode_Copy n
              | LeafNode lf \<Rightarrow> nmtLeafNode_Copy lf)"

section \<open>The collector\<close>

text \<open>
  \<open>prependNode\<close>: \<open>append\<close> a nil slot, shift the old elements one place to the right with
  \<open>copy(nodes[1:], nodes)\<close>, then write the new node at index 0.
\<close>

definition prependNode :: "Node \<Rightarrow> Node list \<Rightarrow> Node list" where
  "prependNode newNode nodes0 =
     (let nodes1 = nodes0 @ [NilNode];
          nodes2 = take 1 nodes1 @ go_copy (drop 1 nodes1) nodes1
      in nodes2[0 := newNode])"

record nmtNodeCollector =
  nodes :: "Node list"

definition newNodeCollector :: nmtNodeCollector where
  "newNodeCollector = \<lparr>nodes = []\<rparr>"

definition ipldNodes :: "nmtNodeCollector \<Rightarrow> Node list" where
  "ipldNodes n = nodes n"

definition visit ::
  "registry \<Rightarrow> nmtNodeCollector \<Rightarrow> bytes \<Rightarrow> bytes list \<Rightarrow> failure + nmtNodeCollector" where
  "visit reg n hash children =
     (case mustCidFromNamespacedSha256 reg hash of
        Inl p \<Rightarrow> Inl p
      | Inr c \<Rightarrow>
          (if length children = 1
           then Inr (n\<lparr>nodes := prependNode
                         (LeafNode \<lparr>nmtLeafNode.cid = c, Data = children ! 0\<rparr>) (nodes n)\<rparr>)
           else if length children = 2
           then Inr (n\<lparr>nodes := prependNode
                         (InnerNode \<lparr>nmtNode.cid = c, l = children ! 0, r = children ! 1\<rparr>)
                         (nodes n)\<rparr>)
           else Inl (Panic ''expected a binary tree'')))"

text \<open>
  The NMT drives the visitor sequentially: one \<open>visit\<close> per produced node, in emission
  order, each a pair of the node's hash and its children. A panic ends the run.
\<close>

fun visit_all ::
  "registry \<Rightarrow> nmtNodeCollector \<Rightarrow> (bytes \<times> bytes list) list \<Rightarrow> failure + nmtNodeCollector" where
  "visit_all reg n [] = Inr n"
| "visit_all reg n (call # calls) =
     (case visit reg n (fst call) (snd call) of
        Inl p \<Rightarrow> Inl p
      | Inr n' \<Rightarrow> visit_all reg n' calls)"

text \<open>The nodes one callback produces: those a fresh collector holds after that callback
  alone (none when the callback panics).\<close>

definition emitted :: "registry \<Rightarrow> bytes \<times> bytes list \<Rightarrow> Node list" where
  "emitted reg call =
     (case visit reg newNodeCollector (fst call) (snd call) of
        Inl _ \<Rightarrow> []
      | Inr n \<Rightarrow> ipldNodes n)"

text \<open>
  Modelled from the spec: the NMT itself is an external collaborator. A non-empty tree is
  a binary tree whose every node carries its namespaced hash; the visitor is called in
  post-order (children before parents, the root last), a leaf with its one child
  \<open>namespaceID || shareData\<close>, an inner node with the namespaced hashes of its two children.
\<close>

datatype nmt_tree = TLeaf bytes bytes | TNode bytes nmt_tree nmt_tree

fun tree_hash :: "nmt_tree \<Rightarrow> bytes" where
  "tree_hash (TLeaf h d) = h"
| "tree_hash (TNode h lt rt) = h"

fun post_order :: "nmt_tree \<Rightarrow> (bytes \<times> bytes list) list" where
  "post_order (TLeaf h d) = [(h, [d])]"
| "post_order (TNode h lt rt) =
     post_order lt @ post_order rt @ [(h, [tree_hash lt, tree_hash rt])]"

fun hashes_sized :: "nmt_tree \<Rightarrow> bool" where
  "hashes_sized (TLeaf h d) = (length h = nmtHashSize)"
| "hashes_sized (TNode h lt rt) =
     (length h = nmtHashSize \<and> hashes_sized lt \<and> hashes_sized rt)"

section \<open>Example values\<close>

text \<open>A constant function of 32 bytes that stands in for SHA-256 where a closed term is
  needed, and the plugin's hash function over it.\<close>

definition sha256_stand_in :: "bytes \<Rightarrow> bytes" where
  "sha256_stand_in input = replicate 32 0"

definition example_hashFunc :: HashFunc where
  "example_hashFunc =
     sumSha256Namespace8Flagged (Sha256Namespace8FlaggedLeaf sha256_stand_in)
       (Sha256Namespace8FlaggedInner sha256_stand_in)"

text \<open>A registry with no code at all, the registry \<open>init\<close> leaves when it starts from it,
  and a registry in which another party has already taken the plugin's multihash code.\<close>

definition bare_registry :: registry where
  "bare_registry =
     \<lparr>Codes = Map.empty, Names = Map.empty, DefaultLengths = Map.empty,
      funcTable = Map.empty\<rparr>"

definition example_registry :: registry where
  "example_registry =
     \<lparr>Codes = [Sha256Namespace8Flagged \<mapsto> ''sha2-256-namespace8-flagged''],
      Names = [''sha2-256-namespace8-flagged'' \<mapsto> Sha256Namespace8Flagged],
      DefaultLengths = [Sha256Namespace8Flagged \<mapsto> 48],
      funcTable = [Sha256Namespace8Flagged \<mapsto> example_hashFunc]\<rparr>"

definition taken_registry :: registry where
  "taken_registry =
     \<lparr>Codes = [Sha256Namespace8Flagged \<mapsto> ''another-hash''],
      Names = [''another-hash'' \<mapsto> Sha256Namespace8Flagged],
      DefaultLengths = [Sha256Namespace8Flagged \<mapsto> 32],
      funcTable = Map.empty\<rparr>"

text \<open>A tree of two leaves under one root, and three blocks.\<close>

definition example_tree :: nmt_tree where
  "example_tree =
     TNode (replicate 48 3) (TLeaf (replicate 48 1) [0xAA]) (TLeaf (replicate 48 2) [0xBB])"

definition long_inner_block :: Block where
  "long_inner_block = \<lparr>Block_Cid = Undef, Block_RawData = NodePrefix # replicate 49 0\<rparr>"

definition short_inner_block :: Block where
  "short_inner_block = \<lparr>Block_Cid = Undef, Block_RawData = [NodePrefix]\<rparr>"

definition unknown_prefix_block :: Block where
  "unknown_prefix_block = \<lparr>Block_Cid = Undef, Block_RawData = [0x42]\<rparr>"

section \<open>Basic facts\<close>

lemma nmtHashSize_48: "nmtHashSize = 48"
  by (simp add: go_consts)

lemma fmt_v_48: "fmt_v 48 = ''48''"
  by (simp add: fmt_v.simps hexdigit_def)

lemma go_copy_fresh: "length dst = length src \<Longrightarrow> go_copy dst src = src"
  by (simp add: go_copy_def)

lemma go_copy_shift: "go_copy (drop 1 (xs @ [x])) (xs @ [x]) = xs"
  by (simp add: go_copy_def)

lemma example_registry_valid: "ValidCode example_registry Sha256Namespace8Flagged"
  by (simp add: ValidCode_def example_registry_def)

lemma init_bare_registry:
  "init (Sha256Namespace8FlaggedLeaf sha256_stand_in)
     (Sha256Namespace8FlaggedInner sha256_stand_in) bare_registry = Inr example_registry"
  by (simp add: init_def mustRegisterNamespacedCodec_def RegisterHashFunc_def ValidCode_def
        bare_registry_def example_registry_def example_hashFunc_def Let_def nmtHashSize_48)

lemma mustRegister_registers:
  "mustRegisterNamespacedCodec reg codec name len f = Inr reg' \<Longrightarrow> ValidCode reg' codec"
  by (auto simp: mustRegisterNamespacedCodec_def RegisterHashFunc_def ValidCode_def Let_def
           split: option.splits if_splits)

lemma init_registers:
  "init lh ih reg = Inr reg' \<Longrightarrow> ValidCode reg' Sha256Namespace8Flagged"
  unfolding init_def by (rule mustRegister_registers)

section \<open>Identifiers from namespaced hashes\<close>

lemma CidFromNamespacedSha256_sized:
  "ValidCode reg Sha256Namespace8Flagged \<Longrightarrow> length h = nmtHashSize \<Longrightarrow>
   CidFromNamespacedSha256 reg h =
     Inr (NewCidV1 Nmt \<lparr>Code = Sha256Namespace8Flagged, Length = nmtHashSize, Digest = h\<rparr>)"
  by (simp add: CidFromNamespacedSha256_def Encode_def Let_def)

lemma CidFromNamespacedSha256_unsized:
  "length h \<noteq> nmtHashSize \<Longrightarrow>
   CidFromNamespacedSha256 reg h =
     Inl (Error (''invalid namespaced hash length, got: '' @ fmt_v (length h) @ '', want: 48''))"
  by (simp add: CidFromNamespacedSha256_def Let_def fmt_v_48 nmtHashSize_48)

lemma CidFromNamespacedSha256_outcome:
  "(\<exists>c. CidFromNamespacedSha256 reg h = Inr c)
   \<or> (\<exists>msg. CidFromNamespacedSha256 reg h = Inl (Error msg))"
  by (simp add: CidFromNamespacedSha256_def Encode_def Let_def)

lemma mustCid_sized:
  "ValidCode reg Sha256Namespace8Flagged \<Longrightarrow> length h = nmtHashSize \<Longrightarrow>
   mustCidFromNamespacedSha256 reg h = CidFromNamespacedSha256 reg h"
  by (simp add: mustCidFromNamespacedSha256_def CidFromNamespacedSha256_sized)

lemma mustCid_Inr:
  "mustCidFromNamespacedSha256 reg h = Inr c \<Longrightarrow> CidFromNamespacedSha256 reg h = Inr c"
  by (auto simp: mustCidFromNamespacedSha256_def split: sum.splits failure.splits)

text \<open>
  C4. With the plugin's multihash code registered (which \<open>init\<close> establishes before any
  other function of the package can run, see \<open>init_registers\<close>),
  \<open>CidFromNamespacedSha256\<close> succeeds if and only if its input is exactly
  \<open>2*NS + H = 48\<close> bytes long. On success the identifier carries the codec \<open>Nmt\<close> and a
  multihash under the code \<open>Sha256Namespace8Flagged\<close> whose digest is the input itself;
  for every other length the result is the invalid-length error and no identifier.
\<close>

theorem CidFromNamespacedSha256_iff_length:
  "ValidCode reg Sha256Namespace8Flagged \<Longrightarrow>
     ((\<exists>c. CidFromNamespacedSha256 reg h = Inr c) \<longleftrightarrow> length h = 48)
   \<and> (length h = 48 \<longrightarrow>
        CidFromNamespacedSha256 reg h =
          Inr (NewCidV1 Nmt \<lparr>Code = Sha256Namespace8Flagged, Length = 48, Digest = h\<rparr>))
   \<and> (length h \<noteq> 48 \<longrightarrow>
        CidFromNamespacedSha256 reg h =
          Inl (Error (''invalid namespaced hash length, got: '' @ fmt_v (length h)
                        @ '', want: 48'')))"
proof (cases "length h = 48")
  case True
  assume "ValidCode reg Sha256Namespace8Flagged"
  with True show ?thesis
    by (simp add: CidFromNamespacedSha256_sized nmtHashSize_48)
next
  case False
  then show ?thesis
    by (simp add: CidFromNamespacedSha256_unsized nmtHashSize_48)
qed

text \<open>C4 at concrete inputs: a hash of 48 bytes, and one of 3 bytes.\<close>

theorem CidFromNamespacedSha256_iff_length_witness:
  "ValidCode example_registry Sha256Namespace8Flagged
   \<and> CidFromNamespacedSha256 example_registry (replicate 48 7) =
        Inr (NewCidV1 Nmt
              \<lparr>Code = Sha256Namespace8Flagged, Length = 48, Digest = replicate 48 7\<rparr>)
   \<and> CidFromNamespacedSha256 example_registry [1, 2, 3] =
        Inl (Error ''invalid namespaced hash length, got: 3, want: 48'')"
  using CidFromNamespacedSha256_iff_length [OF example_registry_valid, where h = "replicate 48 7"]
    CidFromNamespacedSha256_iff_length [OF example_registry_valid, where h = "[1, 2, 3]"]
  by (simp add: example_registry_valid fmt_v.simps hexdigit_def)

section \<open>The block parser\<close>

text \<open>
  C1 (amended). The parser does not check the length of an inner block. For every block
  whose first byte is the inner-node prefix and that is at least \<open>1 + 48\<close> bytes long,
  whether or not its length is 97, \<open>NmtNodeParser\<close> returns an inner node, not a framing
  error: the node carries the block's identifier, the 48 bytes after the prefix as its
  left hash and all remaining bytes as its right hash.
\<close>

theorem inner_block_parsed_without_length_check:
  "Block_RawData block = NodePrefix # rest \<Longrightarrow> 48 \<le> length rest \<Longrightarrow>
   NmtNodeParser block =
     Inr (InnerNode \<lparr>nmtNode.cid = Block_Cid block, l = take 48 rest, r = drop 48 rest\<rparr>)"
  by (simp add: NmtNodeParser_def Let_def go_consts)

text \<open>C1 (amended) at a block of 61 bytes.\<close>

theorem inner_block_parsed_without_length_check_witness:
  "Block_RawData \<lparr>Block_Cid = Undef, Block_RawData = NodePrefix # replicate 60 5\<rparr> =
     NodePrefix # replicate 60 5
   \<and> 48 \<le> length (replicate 60 (5 :: byte))
   \<and> NmtNodeParser \<lparr>Block_Cid = Undef, Block_RawData = NodePrefix # replicate 60 5\<rparr> =
        Inr (InnerNode \<lparr>nmtNode.cid = Undef, l = replicate 48 5, r = replicate 12 5\<rparr>)"
  using inner_block_parsed_without_length_check
    [where block = "\<lparr>Block_Cid = Undef, Block_RawData = NodePrefix # replicate 60 5\<rparr>"
       and rest = "replicate 60 5"]
  by simp

text \<open>
  C1 as stated fails: a block of 50 bytes that starts with the inner-node prefix is not
  97 bytes long, and the parser returns a node for it.
\<close>

theorem inner_block_of_50_bytes_accepted:
  "take 1 (Block_RawData long_inner_block) = [NodePrefix]
   \<and> length (Block_RawData long_inner_block) = 50
   \<and> NmtNodeParser long_inner_block =
        Inr (InnerNode \<lparr>nmtNode.cid = Undef, l = replicate 48 0, r = [0]\<rparr>)"
  by (simp add: NmtNodeParser_def long_inner_block_def Let_def go_consts)

lemma domain_separator_message_contains:
  "sublist ''00''
     ''expected first byte of block to be either the leaf or inner node prefix: (00, 01), got: 42)''
   \<and> sublist ''01''
     ''expected first byte of block to be either the leaf or inner node prefix: (00, 01), got: 42)''
   \<and> sublist ''42''
     ''expected first byte of block to be either the leaf or inner node prefix: (00, 01), got: 42)''"
  by code_simp

lemma fmt_x_prefixes:
  "fmt_x [LeafPrefix] = ''00'' \<and> fmt_x [NodePrefix] = ''01'' \<and> fmt_x [0x42] = ''42''"
  by (simp add: fmt_x_def fmt_x_byte_def hexdigit_def go_consts)

text \<open>
  C2 (amended). \<open>NmtNodeParser\<close> decides on the raw bytes of its block: an empty payload
  gives a leaf node with nil data and the undefined identifier; a first byte equal to the
  leaf prefix gives a leaf node with the bytes after the prefix and the block's
  identifier; a first byte equal to the inner prefix gives an inner node provided the
  block holds at least 48 bytes after the prefix; any other first byte gives an error,
  not a node, whose message prints both legal prefixes and the received byte in
  hexadecimal. For the one-byte block \<open>0x42\<close> the message contains \<open>00\<close>, \<open>01\<close> and \<open>42\<close>.
\<close>

theorem NmtNodeParser_case_analysis:
  "(Block_RawData block = [] \<longrightarrow>
      NmtNodeParser block = Inr (LeafNode \<lparr>nmtLeafNode.cid = Undef, Data = []\<rparr>))
   \<and> (Block_RawData block = LeafPrefix # rest \<longrightarrow>
      NmtNodeParser block =
        Inr (LeafNode \<lparr>nmtLeafNode.cid = Block_Cid block, Data = rest\<rparr>))
   \<and> (Block_RawData block = NodePrefix # rest \<and> nmtHashSize \<le> length rest \<longrightarrow>
      NmtNodeParser block =
        Inr (InnerNode \<lparr>nmtNode.cid = Block_Cid block, l = take nmtHashSize rest,
                         r = drop nmtHashSize rest\<rparr>))
   \<and> (Block_RawData block = b # rest \<and> b \<noteq> LeafPrefix \<and> b \<noteq> NodePrefix \<longrightarrow>
      NmtNodeParser block =
        Inl (Error (''expected first byte of block to be either the leaf or inner node prefix: (''
                      @ fmt_x [LeafPrefix] @ '', '' @ fmt_x [NodePrefix] @ ''), got: ''
                      @ fmt_x [b] @ '')'')))
   \<and> fmt_x [LeafPrefix] = ''00'' \<and> fmt_x [NodePrefix] = ''01'' \<and> fmt_x [0x42] = ''42''
   \<and> NmtNodeParser unknown_prefix_block =
        Inl (Error ''expected first byte of block to be either the leaf or inner node prefix: (00, 01), got: 42)'')
   \<and> sublist ''00''
        ''expected first byte of block to be either the leaf or inner node prefix: (00, 01), got: 42)''
   \<and> sublist ''01''
        ''expected first byte of block to be either the leaf or inner node prefix: (00, 01), got: 42)''
   \<and> sublist ''42''
        ''expected first byte of block to be either the leaf or inner node prefix: (00, 01), got: 42)''"
proof -
  have empty: "Block_RawData block = [] \<longrightarrow>
      NmtNodeParser block = Inr (LeafNode \<lparr>nmtLeafNode.cid = Undef, Data = []\<rparr>)"
    by (simp add: NmtNodeParser_def Let_def)
  have leaf: "Block_RawData block = LeafPrefix # rest \<longrightarrow>
      NmtNodeParser block =
        Inr (LeafNode \<lparr>nmtLeafNode.cid = Block_Cid block, Data = rest\<rparr>)"
    by (simp add: NmtNodeParser_def Let_def)
  have inner: "Block_RawData block = NodePrefix # rest \<and> nmtHashSize \<le> length rest \<longrightarrow>
      NmtNodeParser block =
        Inr (InnerNode \<lparr>nmtNode.cid = Block_Cid block, l = take nmtHashSize rest,
                         r = drop nmtHashSize rest\<rparr>)"
    by (simp add: NmtNodeParser_def Let_def go_consts)
  have other: "Block_RawData block = b # rest \<and> b \<noteq> LeafPrefix \<and> b \<noteq> NodePrefix \<longrightarrow>
      NmtNodeParser block =
        Inl (Error (''expected first byte of block to be either the leaf or inner node prefix: (''
                      @ fmt_x [LeafPrefix] @ '', '' @ fmt_x [NodePrefix] @ ''), got: ''
                      @ fmt_x [b] @ '')''))"
    by (simp add: NmtNodeParser_def Let_def)
  have scenario: "NmtNodeParser unknown_prefix_block =
        Inl (Error ''expected first byte of block to be either the leaf or inner node prefix: (00, 01), got: 42)'')"
    by (simp add: NmtNodeParser_def unknown_prefix_block_def Let_def go_consts fmt_x_def
          fmt_x_byte_def hexdigit_def)
  from empty leaf inner other scenario fmt_x_prefixes domain_separator_message_contains
  show ?thesis by blast
qed

text \<open>C2 (amended) at four blocks, one for each branch of the parser.\<close>

theorem NmtNodeParser_case_analysis_witness:
  "NmtNodeParser \<lparr>Block_Cid = Undef, Block_RawData = []\<rparr> =
     Inr (LeafNode \<lparr>nmtLeafNode.cid = Undef, Data = []\<rparr>)
   \<and> NmtNodeParser
        \<lparr>Block_Cid = NewCidV1 Nmt \<lparr>Code = Sha256Namespace8Flagged, Length = 48,
                                     Digest = replicate 48 9\<rparr>,
         Block_RawData = [LeafPrefix, 1, 2, 3]\<rparr> =
        Inr (LeafNode
              \<lparr>nmtLeafNode.cid = NewCidV1 Nmt \<lparr>Code = Sha256Namespace8Flagged, Length = 48,
                                                 Digest = replicate 48 9\<rparr>,
               Data = [1, 2, 3]\<rparr>)
   \<and> NmtNodeParser \<lparr>Block_Cid = Undef, Block_RawData = NodePrefix # replicate 96 4\<rparr> =
        Inr (InnerNode \<lparr>nmtNode.cid = Undef, l = replicate 48 4, r = replicate 48 4\<rparr>)
   \<and> NmtNodeParser \<lparr>Block_Cid = Undef, Block_RawData = [0x42]\<rparr> =
        Inl (Error ''expected first byte of block to be either the leaf or inner node prefix: (00, 01), got: 42)'')"
  using
    NmtNodeParser_case_analysis [where block = "\<lparr>Block_Cid = Undef, Block_RawData = []\<rparr>"]
    NmtNodeParser_case_analysis
      [where block = "\<lparr>Block_Cid = NewCidV1 Nmt \<lparr>Code = Sha256Namespace8Flagged,
                          Length = 48, Digest = replicate 48 9\<rparr>,
                        Block_RawData = [LeafPrefix, 1, 2, 3]\<rparr>"
         and rest = "[1, 2, 3]"]
    NmtNodeParser_case_analysis
      [where block = "\<lparr>Block_Cid = Undef, Block_RawData = NodePrefix # replicate 96 4\<rparr>"
         and rest = "replicate 96 4"]
    NmtNodeParser_case_analysis
      [where block = "\<lparr>Block_Cid = Undef, Block_RawData = [0x42]\<rparr>"
         and rest = "[]" and b = "0x42"]
  by (simp add: go_consts)

text \<open>
  C2 as stated fails: the one-byte block that holds only the inner prefix has a first
  byte equal to the inner prefix, and the parser yields no node for it; the slice of the
  right hash is out of range and the runtime panics.
\<close>

theorem inner_prefix_alone_panics:
  "take 1 (Block_RawData short_inner_block) = [NodePrefix]
   \<and> NmtNodeParser short_inner_block = Inl RuntimePanic"
  by (simp add: NmtNodeParser_def short_inner_block_def Let_def go_consts)

text \<open>
  C5. The slices of a parsed node alias the block's buffer; \<open>append(n.l, n.r...)\<close> in
  \<open>RawData\<close> then writes the right hash over itself, so the bytes returned are those of
  the model. For every well-formed block, a leaf block \<open>leafPrefix || payload\<close> or an
  inner block \<open>innerPrefix || left(48) || right(48)\<close>, the parser returns a node and
  \<open>RawData\<close> of that node returns the block's bytes.
\<close>

theorem RawData_after_NmtNodeParser:
  "(Block_RawData block = LeafPrefix # payload \<longrightarrow>
      (\<exists>nd. NmtNodeParser block = Inr nd \<and> RawData nd = Inr (Block_RawData block)))
   \<and> (Block_RawData block = NodePrefix # left @ right
        \<and> length left = 48 \<and> length right = 48 \<longrightarrow>
      (\<exists>nd. NmtNodeParser block = Inr nd \<and> RawData nd = Inr (Block_RawData block)))"
proof (intro conjI impI)
  assume leaf: "Block_RawData block = LeafPrefix # payload"
  then have "NmtNodeParser block =
      Inr (LeafNode \<lparr>nmtLeafNode.cid = Block_Cid block, Data = payload\<rparr>)"
    by (simp add: NmtNodeParser_def Let_def)
  moreover have "RawData (LeafNode \<lparr>nmtLeafNode.cid = Block_Cid block, Data = payload\<rparr>) =
      Inr (Block_RawData block)"
    using leaf by (simp add: RawData_def nmtLeafNode_RawData_def)
  ultimately show "\<exists>nd. NmtNodeParser block = Inr nd \<and> RawData nd = Inr (Block_RawData block)"
    by blast
next
  assume inner: "Block_RawData block = NodePrefix # left @ right
      \<and> length left = 48 \<and> length right = 48"
  then have "NmtNodeParser block =
      Inr (InnerNode \<lparr>nmtNode.cid = Block_Cid block, l = left, r = right\<rparr>)"
    by (simp add: NmtNodeParser_def Let_def go_consts)
  moreover have "RawData (InnerNode \<lparr>nmtNode.cid = Block_Cid block, l = left, r = right\<rparr>) =
      Inr (Block_RawData block)"
    using inner by (simp add: RawData_def nmtNode_RawData_def)
  ultimately show "\<exists>nd. NmtNodeParser block = Inr nd \<and> RawData nd = Inr (Block_RawData block)"
    by blast
qed

text \<open>C5 at a leaf block of four bytes and at an inner block of 97 bytes.\<close>

theorem RawData_after_NmtNodeParser_witness:
  "(\<exists>nd. NmtNodeParser \<lparr>Block_Cid = Undef, Block_RawData = [LeafPrefix, 1, 2, 3]\<rparr> = Inr nd
        \<and> RawData nd = Inr [LeafPrefix, 1, 2, 3])
   \<and> length (replicate 48 (1 :: byte)) = 48 \<and> length (replicate 48 (2 :: byte)) = 48
   \<and> (\<exists>nd. NmtNodeParser
             \<lparr>Block_Cid = Undef,
              Block_RawData = NodePrefix # replicate 48 1 @ replicate 48 2\<rparr> = Inr nd
        \<and> RawData nd = Inr (NodePrefix # replicate 48 1 @ replicate 48 2))"
  using
    RawData_after_NmtNodeParser
      [where block = "\<lparr>Block_Cid = Undef, Block_RawData = [LeafPrefix, 1, 2, 3]\<rparr>"
         and payload = "[1, 2, 3]"]
    RawData_after_NmtNodeParser
      [where block = "\<lparr>Block_Cid = Undef,
                        Block_RawData = NodePrefix # replicate 48 1 @ replicate 48 2\<rparr>"
         and left = "replicate 48 1" and right = "replicate 48 2"]
  by simp

section \<open>Path resolution\<close>

text \<open>
  C6 (amended). \<open>Resolve\<close> on an inner node whose path starts with \<open>"0"\<close> returns a link to
  the identifier that \<open>CidFromNamespacedSha256\<close> builds from the stored left hash,
  together with the remaining path, whenever that construction succeeds; when it fails
  (the stored hash is not 48 bytes long) \<open>Resolve\<close> returns that error and no link. The
  same holds for \<open>"1"\<close> and the stored right hash. Any other first step is the error
  \<open>invalid path for inner node\<close>, and \<open>Resolve\<close> on a leaf node is an error for every path.
\<close>

theorem Resolve_by_path_step:
  "(CidFromNamespacedSha256 reg (l n) = Inr c \<longrightarrow>
      Resolve reg (InnerNode n) (''0'' # rest) =
        Inr (\<lparr>Link_Name = [], Link_Size = 0, Link_Cid = c\<rparr>, rest))
   \<and> (CidFromNamespacedSha256 reg (l n) = Inl err \<longrightarrow>
      Resolve reg (InnerNode n) (''0'' # rest) = Inl err)
   \<and> (CidFromNamespacedSha256 reg (r n) = Inr c \<longrightarrow>
      Resolve reg (InnerNode n) (''1'' # rest) =
        Inr (\<lparr>Link_Name = [], Link_Size = 0, Link_Cid = c\<rparr>, rest))
   \<and> (CidFromNamespacedSha256 reg (r n) = Inl err \<longrightarrow>
      Resolve reg (InnerNode n) (''1'' # rest) = Inl err)
   \<and> (step \<noteq> ''0'' \<and> step \<noteq> ''1'' \<longrightarrow>
      Resolve reg (InnerNode n) (step # rest) = Inl (Error ''invalid path for inner node''))
   \<and> Resolve reg (LeafNode lf) path = Inl (Error ''invalid path for leaf node'')"
proof (intro conjI impI)
  assume "CidFromNamespacedSha256 reg (l n) = Inr c"
  then show "Resolve reg (InnerNode n) (''0'' # rest) =
      Inr (\<lparr>Link_Name = [], Link_Size = 0, Link_Cid = c\<rparr>, rest)"
    by (simp add: Resolve_def nmtNode_Resolve_def)
next
  assume "CidFromNamespacedSha256 reg (l n) = Inl err"
  then show "Resolve reg (InnerNode n) (''0'' # rest) = Inl err"
    by (simp add: Resolve_def nmtNode_Resolve_def)
next
  assume "CidFromNamespacedSha256 reg (r n) = Inr c"
  then show "Resolve reg (InnerNode n) (''1'' # rest) =
      Inr (\<lparr>Link_Name = [], Link_Size = 0, Link_Cid = c\<rparr>, rest)"
    by (simp add: Resolve_def nmtNode_Resolve_def)
next
  assume "CidFromNamespacedSha256 reg (r n) = Inl err"
  then show "Resolve reg (InnerNode n) (''1'' # rest) = Inl err"
    by (simp add: Resolve_def nmtNode_Resolve_def)
next
  assume "step \<noteq> ''0'' \<and> step \<noteq> ''1''"
  then show "Resolve reg (InnerNode n) (step # rest) =
      Inl (Error ''invalid path for inner node'')"
    by (simp add: Resolve_def nmtNode_Resolve_def)
next
  show "Resolve reg (LeafNode lf) path = Inl (Error ''invalid path for leaf node'')"
    by (simp add: Resolve_def nmtLeafNode_Resolve_def)
qed

text \<open>
  C6 (amended) at an inner node with a left hash of 48 bytes and a right hash of one
  byte: step \<open>"0"\<close> gives the link and the rest of the path, step \<open>"1"\<close> the length error,
  step \<open>"2"\<close> the path error.
\<close>

theorem Resolve_by_path_step_witness:
  "Resolve example_registry
     (InnerNode \<lparr>nmtNode.cid = Undef, l = replicate 48 0, r = [0]\<rparr>) [''0'', ''1''] =
     Inr (\<lparr>Link_Name = [], Link_Size = 0,
           Link_Cid = NewCidV1 Nmt \<lparr>Code = Sha256Namespace8Flagged, Length = 48,
                                     Digest = replicate 48 0\<rparr>\<rparr>, [''1''])
   \<and> Resolve example_registry
        (InnerNode \<lparr>nmtNode.cid = Undef, l = replicate 48 0, r = [0]\<rparr>) [''1'', ''1''] =
        Inl (Error ''invalid namespaced hash length, got: 1, want: 48'')
   \<and> Resolve example_registry
        (InnerNode \<lparr>nmtNode.cid = Undef, l = replicate 48 0, r = [0]\<rparr>) [''2'', ''1''] =
        Inl (Error ''invalid path for inner node'')"
proof -
  have left: "CidFromNamespacedSha256 example_registry (replicate 48 0) =
      Inr (NewCidV1 Nmt \<lparr>Code = Sha256Namespace8Flagged, Length = 48,
                          Digest = replicate 48 0\<rparr>)"
    using CidFromNamespacedSha256_sized [OF example_registry_valid, of "replicate 48 0"]
    by (simp add: nmtHashSize_48)
  have right: "CidFromNamespacedSha256 example_registry [0] =
      Inl (Error ''invalid namespaced hash length, got: 1, want: 48'')"
    using CidFromNamespacedSha256_unsized [of "[0]" example_registry]
    by (simp add: nmtHashSize_48 fmt_v.simps hexdigit_def)
  show ?thesis
    using left right
      Resolve_by_path_step
        [where reg = example_registry
           and n = "\<lparr>nmtNode.cid = Undef, l = replicate 48 0, r = [0]\<rparr>"
           and rest = "[''1'']" and step = "''2''"
           and c = "NewCidV1 Nmt \<lparr>Code = Sha256Namespace8Flagged, Length = 48,
                                   Digest = replicate 48 0\<rparr>"
           and err = "Error ''invalid namespaced hash length, got: 1, want: 48''"]
    by simp
qed

text \<open>
  C6 as stated fails: the node that the parser returns for the 50-byte inner block has a
  right hash of one byte, and \<open>Resolve\<close> with the step \<open>"1"\<close> returns the length error
  instead of a link.
\<close>

theorem Resolve_right_of_long_inner_block:
  "NmtNodeParser long_inner_block =
     Inr (InnerNode \<lparr>nmtNode.cid = Undef, l = replicate 48 0, r = [0]\<rparr>)
   \<and> Resolve example_registry
        (InnerNode \<lparr>nmtNode.cid = Undef, l = replicate 48 0, r = [0]\<rparr>) [''1''] =
        Inl (Error ''invalid namespaced hash length, got: 1, want: 48'')"
  by (simp add: NmtNodeParser_def long_inner_block_def Resolve_def nmtNode_Resolve_def
        CidFromNamespacedSha256_def Let_def go_consts fmt_v.simps hexdigit_def)

text \<open>
  C9. \<open>nmtNode.Resolve\<close> reads \<open>path[0]\<close> unguarded: on the empty path the runtime panics,
  which is neither a link nor the invalid-path error. On every non-empty path it returns,
  either a link with the remaining path or an error.
\<close>

theorem nmtNode_Resolve_needs_nonempty_path:
  "nmtNode_Resolve reg n [] = Inl RuntimePanic
   \<and> (path \<noteq> [] \<longrightarrow>
        (\<exists>lnk rest. nmtNode_Resolve reg n path = Inr (lnk, rest))
        \<or> (\<exists>msg. nmtNode_Resolve reg n path = Inl (Error msg)))"
proof (intro conjI impI)
  show "nmtNode_Resolve reg n [] = Inl RuntimePanic"
    by (simp add: nmtNode_Resolve_def)
next
  assume "path \<noteq> []"
  then obtain step rest where path: "path = step # rest"
    by (cases path) auto
  consider (zero) "step = ''0''" | (one) "step = ''1''"
    | (other) "step \<noteq> ''0''" "step \<noteq> ''1''"
    by blast
  then show "(\<exists>lnk rest. nmtNode_Resolve reg n path = Inr (lnk, rest))
        \<or> (\<exists>msg. nmtNode_Resolve reg n path = Inl (Error msg))"
  proof cases
    case zero
    with path CidFromNamespacedSha256_outcome [of reg "l n"] show ?thesis
      by (auto simp: nmtNode_Resolve_def)
  next
    case one
    with path CidFromNamespacedSha256_outcome [of reg "r n"] show ?thesis
      by (auto simp: nmtNode_Resolve_def)
  next
    case other
    with path show ?thesis
      by (simp add: nmtNode_Resolve_def)
  qed
qed

text \<open>C9 at the empty path and at the path \<open>["0"]\<close> of a node with two 48-byte hashes.\<close>

theorem nmtNode_Resolve_needs_nonempty_path_witness:
  "nmtNode_Resolve example_registry
     \<lparr>nmtNode.cid = Undef, l = replicate 48 1, r = replicate 48 2\<rparr> [] = Inl RuntimePanic
   \<and> [''0''] \<noteq> ([] :: string list)
   \<and> ((\<exists>lnk rest. nmtNode_Resolve example_registry
          \<lparr>nmtNode.cid = Undef, l = replicate 48 1, r = replicate 48 2\<rparr> [''0''] =
            Inr (lnk, rest))
       \<or> (\<exists>msg. nmtNode_Resolve example_registry
          \<lparr>nmtNode.cid = Undef, l = replicate 48 1, r = replicate 48 2\<rparr> [''0''] =
            Inl (Error msg)))"
  using nmtNode_Resolve_needs_nonempty_path
    [where reg = example_registry
       and n = "\<lparr>nmtNode.cid = Undef, l = replicate 48 1, r = replicate 48 2\<rparr>"
       and path = "[''0'']"]
  by simp

section \<open>Copying nodes\<close>

lemma nmtNode_Copy_same: "Copy (InnerNode n) = Inr (InnerNode n)"
  by (simp add: Copy_def nmtNode_Copy_def Let_def go_copy_fresh make_bytes_def)

lemma nmtLeafNode_Copy_panics: "Copy (LeafNode lf) = Inl (Panic ''implement me'')"
  by (simp add: Copy_def nmtLeafNode_Copy_def)

text \<open>
  C7. \<open>Copy\<close> of an inner node returns an equal node (\<open>nmtNode_Copy_same\<close>), but \<open>Copy\<close> of a
  leaf node is the stub \<open>panic("implement me")\<close>: for the leaf that the parser returns
  for the block \<open>00 01 02 03\<close> it aborts instead of returning a node.
\<close>

theorem Copy_of_parsed_leaf_panics:
  "NmtNodeParser \<lparr>Block_Cid = Undef, Block_RawData = [LeafPrefix, 1, 2, 3]\<rparr> =
     Inr (LeafNode \<lparr>nmtLeafNode.cid = Undef, Data = [1, 2, 3]\<rparr>)
   \<and> Copy (LeafNode \<lparr>nmtLeafNode.cid = Undef, Data = [1, 2, 3]\<rparr>) =
        Inl (Panic ''implement me'')"
  by (simp add: NmtNodeParser_def Let_def nmtLeafNode_Copy_panics)

section \<open>Registration\<close>

lemma mustRegister_present:
  "Codes reg codec = Some v \<Longrightarrow>
   mustRegisterNamespacedCodec reg codec name len f = Inr reg"
  by (simp add: mustRegisterNamespacedCodec_def)

lemma mustRegister_absent:
  "Codes reg codec = None \<Longrightarrow> funcTable reg codec = None \<Longrightarrow>
   mustRegisterNamespacedCodec reg codec name len f =
     Inr (reg\<lparr>Codes := (Codes reg)(codec \<mapsto> name), Names := (Names reg)(name \<mapsto> codec),
              DefaultLengths := (DefaultLengths reg)(codec \<mapsto> len),
              funcTable := (funcTable reg)(codec \<mapsto> f)\<rparr>)"
  by (simp add: mustRegisterNamespacedCodec_def RegisterHashFunc_def ValidCode_def Let_def)

text \<open>
  C8. When the code is already present, \<open>mustRegisterNamespacedCodec\<close> returns the
  registry unchanged whatever the parameters are (\<open>mustRegister_present\<close>): the check that
  should abort on a conflicting entry repeats the outer lookup inside its negative
  branch and can never fire. In a registry where the code \<open>0x7701\<close> is taken under
  another name, registering the plugin's name, length and hash function under that code
  returns normally and leaves the other entry in place.
\<close>

theorem mustRegister_conflict_is_silent:
  "Codes taken_registry Sha256Namespace8Flagged = Some ''another-hash''
   \<and> mustRegisterNamespacedCodec taken_registry Sha256Namespace8Flagged
        ''sha2-256-namespace8-flagged'' 48 example_hashFunc =
        Inr taken_registry"
  by (simp add: mustRegisterNamespacedCodec_def taken_registry_def)

section \<open>The registered hash function\<close>

lemma nmt_leaf_short_payload:
  "length payload < namespaceSize \<Longrightarrow> Sha256Namespace8FlaggedLeaf baseHash payload = None"
  by (simp add: Sha256Namespace8FlaggedLeaf_def)

lemma nmt_inner_short_payload:
  "length payload < nmtHashSize \<Longrightarrow> Sha256Namespace8FlaggedInner baseHash payload = None"
  by (simp add: Sha256Namespace8FlaggedInner_def)

lemma nmt_leaf_returns:
  "namespaceSize \<le> length payload \<Longrightarrow>
   Sha256Namespace8FlaggedLeaf baseHash payload =
     Some (take namespaceSize payload @ take namespaceSize payload
             @ baseHash (LeafPrefix # payload))"
  by (simp add: Sha256Namespace8FlaggedLeaf_def Let_def)

text \<open>
  C10 (amended). \<open>sumSha256Namespace8Flagged\<close> reads \<open>data[0]\<close> unguarded, so on empty input
  the runtime panics, and it never returns a non-nil error. On a non-empty input it calls
  the NMT leaf hash on \<open>data[1:]\<close> when \<open>data[0]\<close> is the leaf prefix and the NMT inner
  hash on \<open>data[1:]\<close> otherwise; whenever that routine returns, its hash is returned with
  a nil error, and when that routine panics the call panics with it. Non-empty input is
  therefore not enough for a result: the payload must also be one the NMT routine accepts.
\<close>

theorem sumSha256Namespace8Flagged_returns_what_nmt_returns:
  "sumSha256Namespace8Flagged leafHash innerHash [] len = Inl RuntimePanic
   \<and> sumSha256Namespace8Flagged leafHash innerHash data len \<noteq> Inl (Error msg)
   \<and> (data \<noteq> [] \<and> data ! 0 = LeafPrefix \<and> leafHash (drop 1 data) = Some h \<longrightarrow>
        sumSha256Namespace8Flagged leafHash innerHash data len = Inr h)
   \<and> (data \<noteq> [] \<and> data ! 0 \<noteq> LeafPrefix \<and> innerHash (drop 1 data) = Some h \<longrightarrow>
        sumSha256Namespace8Flagged leafHash innerHash data len = Inr h)
   \<and> (data \<noteq> [] \<and> data ! 0 = LeafPrefix \<and> leafHash (drop 1 data) = None \<longrightarrow>
        sumSha256Namespace8Flagged leafHash innerHash data len = Inl RuntimePanic)
   \<and> (data \<noteq> [] \<and> data ! 0 \<noteq> LeafPrefix \<and> innerHash (drop 1 data) = None \<longrightarrow>
        sumSha256Namespace8Flagged leafHash innerHash data len = Inl RuntimePanic)"
proof (intro conjI impI)
  show "sumSha256Namespace8Flagged leafHash innerHash [] len = Inl RuntimePanic"
    by (simp add: sumSha256Namespace8Flagged_def)
next
  show "sumSha256Namespace8Flagged leafHash innerHash data len \<noteq> Inl (Error msg)"
    by (simp add: sumSha256Namespace8Flagged_def Let_def split: option.splits)
next
  assume "data \<noteq> [] \<and> data ! 0 = LeafPrefix \<and> leafHash (drop 1 data) = Some h"
  then show "sumSha256Namespace8Flagged leafHash innerHash data len = Inr h"
    by (simp add: sumSha256Namespace8Flagged_def Let_def)
next
  assume "data \<noteq> [] \<and> data ! 0 \<noteq> LeafPrefix \<and> innerHash (drop 1 data) = Some h"
  then show "sumSha256Namespace8Flagged leafHash innerHash data len = Inr h"
    by (simp add: sumSha256Namespace8Flagged_def Let_def)
next
  assume "data \<noteq> [] \<and> data ! 0 = LeafPrefix \<and> leafHash (drop 1 data) = None"
  then show "sumSha256Namespace8Flagged leafHash innerHash data len = Inl RuntimePanic"
    by (simp add: sumSha256Namespace8Flagged_def Let_def)
next
  assume "data \<noteq> [] \<and> data ! 0 \<noteq> LeafPrefix \<and> innerHash (drop 1 data) = None"
  then show "sumSha256Namespace8Flagged leafHash innerHash data len = Inl RuntimePanic"
    by (simp add: sumSha256Namespace8Flagged_def Let_def)
qed

lemma example_leaf_hash:
  "Sha256Namespace8FlaggedLeaf sha256_stand_in (replicate 8 7 @ [1, 2, 3]) =
     Some (replicate 8 7 @ replicate 8 7
             @ sha256_stand_in (LeafPrefix # replicate 8 7 @ [1, 2, 3]))"
  using nmt_leaf_returns [of "replicate 8 7 @ [1, 2, 3]" sha256_stand_in]
  by (simp add: go_consts)

lemma example_inner_hash:
  "Sha256Namespace8FlaggedInner sha256_stand_in
     ((replicate 8 1 @ replicate 8 1 @ replicate 32 5)
        @ (replicate 8 2 @ replicate 8 2 @ replicate 32 6)) =
     Some (replicate 8 1 @ replicate 8 2
             @ sha256_stand_in
                 (NodePrefix # (replicate 8 1 @ replicate 8 1 @ replicate 32 5)
                    @ (replicate 8 2 @ replicate 8 2 @ replicate 32 6)))"
proof -
  have less: "bytes_less (replicate 8 1) (replicate 8 2)"
    by code_simp
  have not_less: "\<not> bytes_less (replicate 8 2) (replicate 8 1)"
    by code_simp
  show ?thesis
    using less not_less
    by (simp add: Sha256Namespace8FlaggedInner_def Let_def go_consts min_ns_def max_ns_def)
qed

text \<open>
  C10 (amended) at a leaf-flagged input with a namespace of eight bytes and a share of
  three, and at an inner-flagged input with two namespaced hashes of 48 bytes.
\<close>

theorem sumSha256Namespace8Flagged_returns_what_nmt_returns_witness:
  "LeafPrefix # replicate 8 7 @ [1, 2, 3] \<noteq> ([] :: bytes)
   \<and> sumSha256Namespace8Flagged (Sha256Namespace8FlaggedLeaf sha256_stand_in)
        (Sha256Namespace8FlaggedInner sha256_stand_in)
        (LeafPrefix # replicate 8 7 @ [1, 2, 3]) 48 =
        Inr (replicate 8 7 @ replicate 8 7
               @ sha256_stand_in (LeafPrefix # replicate 8 7 @ [1, 2, 3]))
   \<and> sumSha256Namespace8Flagged (Sha256Namespace8FlaggedLeaf sha256_stand_in)
        (Sha256Namespace8FlaggedInner sha256_stand_in)
        (NodePrefix # (replicate 8 1 @ replicate 8 1 @ replicate 32 5)
           @ (replicate 8 2 @ replicate 8 2 @ replicate 32 6)) 48 =
        Inr (replicate 8 1 @ replicate 8 2
               @ sha256_stand_in
                   (NodePrefix # (replicate 8 1 @ replicate 8 1 @ replicate 32 5)
                      @ (replicate 8 2 @ replicate 8 2 @ replicate 32 6)))
   \<and> sumSha256Namespace8Flagged (Sha256Namespace8FlaggedLeaf sha256_stand_in)
        (Sha256Namespace8FlaggedInner sha256_stand_in) [] 48 = Inl RuntimePanic"
  using
    sumSha256Namespace8Flagged_returns_what_nmt_returns
      [where leafHash = "Sha256Namespace8FlaggedLeaf sha256_stand_in"
         and innerHash = "Sha256Namespace8FlaggedInner sha256_stand_in"
         and data = "LeafPrefix # replicate 8 7 @ [1, 2, 3]" and len = 48
         and h = "replicate 8 7 @ replicate 8 7
                    @ sha256_stand_in (LeafPrefix # replicate 8 7 @ [1, 2, 3])"]
    sumSha256Namespace8Flagged_returns_what_nmt_returns
      [where leafHash = "Sha256Namespace8FlaggedLeaf sha256_stand_in"
         and innerHash = "Sha256Namespace8FlaggedInner sha256_stand_in"
         and data = "NodePrefix # (replicate 8 1 @ replicate 8 1 @ replicate 32 5)
                       @ (replicate 8 2 @ replicate 8 2 @ replicate 32 6)" and len = 48
         and h = "replicate 8 1 @ replicate 8 2
                    @ sha256_stand_in
                        (NodePrefix # (replicate 8 1 @ replicate 8 1 @ replicate 32 5)
                           @ (replicate 8 2 @ replicate 8 2 @ replicate 32 6))"]
    example_leaf_hash example_inner_hash
  by (simp add: go_consts)

text \<open>
  C10 as stated fails: the inputs \<open>00 01 02\<close> and \<open>01 01 02\<close> are not empty, yet the call
  returns no hash. The payload \<open>01 02\<close> is shorter than a namespace and shorter than a
  namespaced hash, so the NMT routine slices out of range and the runtime panics.
\<close>

theorem sumSha256Namespace8Flagged_short_payload_panics:
  "[LeafPrefix, 1, 2] \<noteq> ([] :: bytes)
   \<and> sumSha256Namespace8Flagged (Sha256Namespace8FlaggedLeaf sha256_stand_in)
        (Sha256Namespace8FlaggedInner sha256_stand_in) [LeafPrefix, 1, 2] 48 =
        Inl RuntimePanic
   \<and> [NodePrefix, 1, 2] \<noteq> ([] :: bytes)
   \<and> sumSha256Namespace8Flagged (Sha256Namespace8FlaggedLeaf sha256_stand_in)
        (Sha256Namespace8FlaggedInner sha256_stand_in) [NodePrefix, 1, 2] 48 =
        Inl RuntimePanic"
  by (simp add: sumSha256Namespace8Flagged_def Sha256Namespace8FlaggedLeaf_def
        Sha256Namespace8FlaggedInner_def Let_def go_consts)

section \<open>The collector\<close>

lemma prependNode_Cons: "prependNode nd nds = nd # nds"
proof (cases nds)
  case Nil
  then show ?thesis by (simp add: prependNode_def go_copy_def)
next
  case (Cons a as)
  have "go_copy (drop 1 (nds @ [NilNode])) (nds @ [NilNode]) = nds"
    by (rule go_copy_shift)
  then show ?thesis using Cons by (simp add: prependNode_def Let_def)
qed

lemma visit_step:
  "visit reg n h ch = Inr n' \<Longrightarrow>
   \<exists>nd. nodes n' = nd # nodes n \<and> emitted reg (h, ch) = [nd]
        \<and> Cid_of nd = CidFromNamespacedSha256 reg h"
  by (auto simp: visit_def emitted_def ipldNodes_def newNodeCollector_def prependNode_Cons
        Cid_of_def nmtNode_Cid_def nmtLeafNode_Cid_def
        dest: mustCid_Inr split: sum.splits if_splits)

lemma visit_all_reverse:
  "visit_all reg n calls = Inr n' \<Longrightarrow>
   ipldNodes n' = rev (concat (map (emitted reg) calls)) @ ipldNodes n"
proof (induction calls arbitrary: n)
  case Nil
  then show ?case by simp
next
  case (Cons call calls)
  from Cons.prems obtain n1 where
    step: "visit reg n (fst call) (snd call) = Inr n1" and
    run: "visit_all reg n1 calls = Inr n'"
    by (auto split: sum.splits)
  from visit_step [OF step] obtain nd where
    nd: "nodes n1 = nd # nodes n" "emitted reg call = [nd]"
    by auto
  from Cons.IH [OF run] nd show ?case
    by (simp add: ipldNodes_def)
qed

lemma visit_all_length:
  "visit_all reg n calls = Inr n' \<Longrightarrow> length (nodes n') = length calls + length (nodes n)"
proof (induction calls arbitrary: n)
  case Nil
  then show ?case by simp
next
  case (Cons call calls)
  from Cons.prems obtain n1 where
    step: "visit reg n (fst call) (snd call) = Inr n1" and
    run: "visit_all reg n1 calls = Inr n'"
    by (auto split: sum.splits)
  from visit_step [OF step] have "length (nodes n1) = Suc (length (nodes n))"
    by auto
  with Cons.IH [OF run] show ?case by simp
qed

lemma visit_all_append:
  "visit_all reg n (xs @ ys) =
     (case visit_all reg n xs of Inl p \<Rightarrow> Inl p | Inr n1 \<Rightarrow> visit_all reg n1 ys)"
  by (induction xs arbitrary: n) (auto split: sum.splits)

lemma visit_leaf_ok:
  "ValidCode reg Sha256Namespace8Flagged \<Longrightarrow> length h = nmtHashSize \<Longrightarrow>
   \<exists>n'. visit reg n h [d] = Inr n'"
  by (simp add: visit_def mustCid_sized CidFromNamespacedSha256_sized)

lemma visit_inner_ok:
  "ValidCode reg Sha256Namespace8Flagged \<Longrightarrow> length h = nmtHashSize \<Longrightarrow>
   \<exists>n'. visit reg n h [lh, rh] = Inr n'"
  by (simp add: visit_def mustCid_sized CidFromNamespacedSha256_sized)

lemma post_order_run:
  "ValidCode reg Sha256Namespace8Flagged \<Longrightarrow> hashes_sized t \<Longrightarrow>
   \<exists>n' nd pre. visit_all reg n (post_order t) = Inr n'
      \<and> nodes n' = nd # pre @ nodes n
      \<and> Cid_of nd = CidFromNamespacedSha256 reg (tree_hash t)"
proof (induction t arbitrary: n)
  case (TLeaf h d)
  then obtain n' where v: "visit reg n h [d] = Inr n'"
    using visit_leaf_ok [of reg h n d] by auto
  from visit_step [OF v] show ?case using v by auto
next
  case (TNode h lt rt)
  from TNode.prems have sz: "length h = nmtHashSize" "hashes_sized lt" "hashes_sized rt"
    by auto
  from TNode.IH(1) [OF TNode.prems(1) sz(2), of n] obtain n1 nd1 pre1 where
    r1: "visit_all reg n (post_order lt) = Inr n1" "nodes n1 = nd1 # pre1 @ nodes n"
    by blast
  from TNode.IH(2) [OF TNode.prems(1) sz(3), of n1] obtain n2 nd2 pre2 where
    r2: "visit_all reg n1 (post_order rt) = Inr n2" "nodes n2 = nd2 # pre2 @ nodes n1"
    by blast
  obtain n3 where v: "visit reg n2 h [tree_hash lt, tree_hash rt] = Inr n3"
    using visit_inner_ok [OF TNode.prems(1) sz(1), of n2] by blast
  from visit_step [OF v] obtain nd where
    nd: "nodes n3 = nd # nodes n2" "Cid_of nd = CidFromNamespacedSha256 reg h"
    by blast
  have "visit_all reg n (post_order (TNode h lt rt)) = Inr n3"
    using r1(1) r2(1) v by (simp add: visit_all_append)
  moreover have "nodes n3 = nd # (nd2 # pre2 @ nd1 # pre1) @ nodes n"
    using nd(1) r2(2) r1(2) by simp
  ultimately show ?case using nd(2) by auto
qed

text \<open>
  C3. \<open>prependNode\<close> returns the new node followed by the old list in unchanged order.
  Hence, for every sequence of \<open>visit\<close> callbacks that the collector completes, its output
  lists the produced nodes, one for each callback, in the reverse of their emission order. When the NMT emits
  the nodes of a non-empty tree in post-order, the root last, with namespaced hashes of
  48 bytes and the multihash code registered, the run completes and the first node of
  the output has the identifier built from the root's hash.
\<close>

theorem collector_output_is_root_first:
  "prependNode nd nds = nd # nds
   \<and> (visit_all reg newNodeCollector calls = Inr n' \<longrightarrow>
        ipldNodes n' = rev (concat (map (emitted reg) calls))
        \<and> length (ipldNodes n') = length calls)
   \<and> (ValidCode reg Sha256Namespace8Flagged \<and> hashes_sized t \<longrightarrow>
        (\<exists>n1 first others c.
            visit_all reg newNodeCollector (post_order t) = Inr n1
          \<and> ipldNodes n1 = first # others
          \<and> CidFromNamespacedSha256 reg (tree_hash t) = Inr c
          \<and> Cid_of first = Inr c))"
proof (intro conjI impI)
  show "prependNode nd nds = nd # nds" by (rule prependNode_Cons)
next
  assume run: "visit_all reg newNodeCollector calls = Inr n'"
  from visit_all_reverse [OF run]
  show "ipldNodes n' = rev (concat (map (emitted reg) calls))"
    by (simp add: ipldNodes_def newNodeCollector_def)
next
  assume run: "visit_all reg newNodeCollector calls = Inr n'"
  from visit_all_length [OF run]
  show "length (ipldNodes n') = length calls"
    by (simp add: ipldNodes_def newNodeCollector_def)
next
  assume a: "ValidCode reg Sha256Namespace8Flagged \<and> hashes_sized t"
  then have "length (tree_hash t) = nmtHashSize" by (cases t) auto
  with a obtain c where c: "CidFromNamespacedSha256 reg (tree_hash t) = Inr c"
    by (simp add: CidFromNamespacedSha256_sized)
  from a post_order_run [of reg t newNodeCollector] obtain n1 first pre where
    "visit_all reg newNodeCollector (post_order t) = Inr n1"
    "nodes n1 = first # pre @ nodes newNodeCollector"
    "Cid_of first = CidFromNamespacedSha256 reg (tree_hash t)"
    by blast
  with c show "\<exists>n1 first others c.
            visit_all reg newNodeCollector (post_order t) = Inr n1
          \<and> ipldNodes n1 = first # others
          \<and> CidFromNamespacedSha256 reg (tree_hash t) = Inr c
          \<and> Cid_of first = Inr c"
    by (auto simp: ipldNodes_def)
qed

lemma example_tree_run:
  "visit_all example_registry newNodeCollector (post_order example_tree) =
     Inr \<lparr>nodes =
       [InnerNode \<lparr>nmtNode.cid = NewCidV1 Nmt \<lparr>Code = Sha256Namespace8Flagged, Length = 48,
                                                Digest = replicate 48 3\<rparr>,
                   l = replicate 48 1, r = replicate 48 2\<rparr>,
        LeafNode \<lparr>nmtLeafNode.cid = NewCidV1 Nmt \<lparr>Code = Sha256Namespace8Flagged, Length = 48,
                                                   Digest = replicate 48 2\<rparr>,
                  Data = [0xBB]\<rparr>,
        LeafNode \<lparr>nmtLeafNode.cid = NewCidV1 Nmt \<lparr>Code = Sha256Namespace8Flagged, Length = 48,
                                                   Digest = replicate 48 1\<rparr>,
                  Data = [0xAA]\<rparr>]\<rparr>"
  by (simp add: example_tree_def visit_def newNodeCollector_def prependNode_Cons
        mustCid_sized CidFromNamespacedSha256_sized example_registry_valid nmtHashSize_48)

text \<open>
  C3 at the tree of two leaves: the callbacks arrive as left leaf, right leaf, root, and
  the collector holds root, right leaf, left leaf.
\<close>

theorem collector_output_is_root_first_witness:
  "ValidCode example_registry Sha256Namespace8Flagged
   \<and> hashes_sized example_tree
   \<and> post_order example_tree =
        [(replicate 48 1, [[0xAA]]), (replicate 48 2, [[0xBB]]),
         (replicate 48 3, [replicate 48 1, replicate 48 2])]
   \<and> (\<exists>n1 first others c.
          visit_all example_registry newNodeCollector (post_order example_tree) = Inr n1
        \<and> ipldNodes n1 = first # others
        \<and> CidFromNamespacedSha256 example_registry (tree_hash example_tree) = Inr c
        \<and> Cid_of first = Inr c)
   \<and> visit_all example_registry newNodeCollector (post_order example_tree) =
       Inr \<lparr>nodes =
         [InnerNode \<lparr>nmtNode.cid = NewCidV1 Nmt \<lparr>Code = Sha256Namespace8Flagged, Length = 48,
                                                  Digest = replicate 48 3\<rparr>,
                     l = replicate 48 1, r = replicate 48 2\<rparr>,
          LeafNode \<lparr>nmtLeafNode.cid = NewCidV1 Nmt \<lparr>Code = Sha256Namespace8Flagged,
                                                     Length = 48, Digest = replicate 48 2\<rparr>,
                    Data = [0xBB]\<rparr>,
          LeafNode \<lparr>nmtLeafNode.cid = NewCidV1 Nmt \<lparr>Code = Sha256Namespace8Flagged,
                                                     Length = 48, Digest = replicate 48 1\<rparr>,
                    Data = [0xAA]\<rparr>]\<rparr>"
proof -
  have sized: "hashes_sized example_tree"
    by (simp add: example_tree_def nmtHashSize_48)
  have order: "post_order example_tree =
        [(replicate 48 1, [[0xAA]]), (replicate 48 2, [[0xBB]]),
         (replicate 48 3, [replicate 48 1, replicate 48 2])]"
    by (simp add: example_tree_def)
  from collector_output_is_root_first [where reg = example_registry and t = example_tree]
    example_registry_valid sized
  have "\<exists>n1 first others c.
          visit_all example_registry newNodeCollector (post_order example_tree) = Inr n1
        \<and> ipldNodes n1 = first # others
        \<and> CidFromNamespacedSha256 example_registry (tree_hash example_tree) = Inr c
        \<and> Cid_of first = Inr c"
    by blast
  with example_registry_valid sized order example_tree_run show ?thesis
    by blast
qed


end
